theory Spec2Isabelle
  imports Main "HOL-Library.Sublist"
begin

section \<open>Host-language values, exceptions and completions\<close>

text \<open>
  The module is TypeScript; at run time its payloads are arbitrary JavaScript values
  (\<^verbatim>\<open>Result<unknown, unknown>\<close> in \<^verbatim>\<open>ResultUtils.combine\<close>). The module never inspects a
  payload, so numbers are kept as integers here.
\<close>

datatype js_value =
    Undefined
  | Null
  | Boolean bool
  | Number int
  | Str string
  | Array "js_value list"
  | Object "(string \<times> js_value) list"

text \<open>
  A thrown value: an instance of an exception class (its constructor's name) holding a
  message. \<^verbatim>\<open>new Error(msg)\<close> is an instance of the built-in class \<^verbatim>\<open>Error\<close>.
\<close>

datatype js_exception = Exception (class_name: string) (message: string)

definition new_Error :: "string \<Rightarrow> js_exception" where
  "new_Error msg = Exception ''Error'' msg"

text \<open>
  Every call either returns a value (\<open>Inr\<close>) or throws (\<open>Inl\<close>). Caller-supplied
  functions are calls too, so they have a completion as their result, and a throw inside
  one propagates through the method that invoked it.
\<close>

type_synonym 'a completion = "js_exception + 'a"

fun then_do :: "'a completion \<Rightarrow> ('a \<Rightarrow> 'b completion) \<Rightarrow> 'b completion" where
  "then_do (Inl x) k = Inl x"
| "then_do (Inr a) k = k a"

text \<open>A call that returns rather than throws.\<close>

fun returns :: "'a completion \<Rightarrow> bool" where
  "returns (Inl x) = False"
| "returns (Inr a) = True"

text \<open>\<^verbatim>\<open>Array.prototype.map\<close> with a callback that may throw: the first throw ends the loop.\<close>

fun array_map :: "('a \<Rightarrow> 'b completion) \<Rightarrow> 'a list \<Rightarrow> 'b list completion" where
  "array_map f [] = Inr []"
| "array_map f (x # xs) =
     then_do (f x) (\<lambda>y. then_do (array_map f xs) (\<lambda>ys. Inr (y # ys)))"

section \<open>The two classes: \<^verbatim>\<open>Ok\<close> and \<^verbatim>\<open>Fail\<close>\<close>

text \<open>
  \<^verbatim>\<open>type Result<V, E> = Ok<V, E> | Fail<V, E>\<close>. Each class has one constructor argument,
  stored in the field \<^verbatim>\<open>value\<close>; the fields \<^verbatim>\<open>isOk\<close> and \<^verbatim>\<open>isFail\<close> are class constants.
\<close>

datatype ('v, 'e) Result = Ok 'v | Fail 'e

fun isOk :: "('v, 'e) Result \<Rightarrow> bool" where
  "isOk (Ok v) = True"
| "isOk (Fail e) = False"

fun isFail :: "('v, 'e) Result \<Rightarrow> bool" where
  "isFail (Ok v) = False"
| "isFail (Fail e) = True"

text \<open>The field \<^verbatim>\<open>value\<close>, read without regard to the class (an untagged union).\<close>

fun value_of :: "('a, 'a) Result \<Rightarrow> 'a" where
  "value_of (Ok v) = v"
| "value_of (Fail e) = e"

text \<open>\<^verbatim>\<open>r instanceof Fail\<close>\<close>

fun instanceof_Fail :: "('v, 'e) Result \<Rightarrow> bool" where
  "instanceof_Fail (Ok v) = False"
| "instanceof_Fail (Fail e) = True"

subsection \<open>The methods of \<^verbatim>\<open>IResult\<close>, first equation for \<^verbatim>\<open>Ok\<close>, second for \<^verbatim>\<open>Fail\<close>\<close>

fun map_res :: "('v, 'e) Result \<Rightarrow> ('v \<Rightarrow> 'w completion) \<Rightarrow> ('w, 'e) Result completion" where
  "map_res (Ok v) mapFn = then_do (mapFn v) (\<lambda>w. Inr (Ok w))"
| "map_res (Fail e) mapFn = Inr (Fail e)"

fun flatMap ::
  "('v, 'e) Result \<Rightarrow> ('v \<Rightarrow> ('w, 'e) Result completion) \<Rightarrow> ('w, 'e) Result completion" where
  "flatMap (Ok v) mapFn = mapFn v"
| "flatMap (Fail e) mapFn = Inr (Fail e)"

fun mapFails :: "('v, 'e) Result \<Rightarrow> ('e \<Rightarrow> 'f completion) \<Rightarrow> ('v, 'f) Result completion" where
  "mapFails (Ok v) mapFn = Inr (Ok v)"
| "mapFails (Fail e) mapFn = then_do (mapFn e) (\<lambda>e'. Inr (Fail e'))"

fun flip :: "('v, 'e) Result \<Rightarrow> ('e, 'v) Result completion" where
  "flip (Ok v) = Inr (Fail v)"
| "flip (Fail e) = Inr (Ok e)"

fun unwrap :: "('v, 'e) Result \<Rightarrow> 'v completion" where
  "unwrap (Ok v) = Inr v"
| "unwrap (Fail e) = Inl (new_Error ''Tried to unwrap a Fail result'')"

fun unwrapOr :: "('v, 'e) Result \<Rightarrow> 'v \<Rightarrow> 'v completion" where
  "unwrapOr (Ok v) defaultValue = Inr v"
| "unwrapOr (Fail e) defaultValue = Inr defaultValue"

fun unwrapOrElse :: "('v, 'e) Result \<Rightarrow> (unit \<Rightarrow> 'v completion) \<Rightarrow> 'v completion" where
  "unwrapOrElse (Ok v) fn = Inr v"
| "unwrapOrElse (Fail e) fn = fn ()"

fun expect :: "('v, 'e) Result \<Rightarrow> string \<Rightarrow> 'v completion" where
  "expect (Ok v) msg = Inr v"
| "expect (Fail e) msg = Inl (new_Error msg)"

fun and_res :: "('v, 'e) Result \<Rightarrow> ('w, 'e) Result \<Rightarrow> ('w, 'e) Result completion" where
  "and_res (Ok v) result = Inr result"
| "and_res (Fail e) result = Inr (Fail e)"

fun or_res :: "('v, 'e) Result \<Rightarrow> ('v, 'e) Result \<Rightarrow> ('v, 'e) Result completion" where
  "or_res (Ok v) result = Inr (Ok v)"
| "or_res (Fail e) result = Inr result"

fun unwrapOrGetErrors :: "('a, 'a) Result \<Rightarrow> 'a completion" where
  "unwrapOrGetErrors (Ok v) = Inr v"
| "unwrapOrGetErrors (Fail e) = Inr e"

subsection \<open>\<^verbatim>\<open>ResultUtils.combine\<close>\<close>

definition combine ::
  "(js_value, js_value) Result list \<Rightarrow> (js_value list, js_value list) Result completion" where
  "combine results =
     (let fails = filter instanceof_Fail results in
      if length fails > 0 then
        (let failValues = map value_of fails in Inr (Fail failValues))
      else
        then_do (array_map (\<lambda>r. unwrapOr r Null) results) (\<lambda>okValues. Inr (Ok okValues)))"

subsection \<open>The outcome of \<^verbatim>\<open>combine\<close> in the words of its contract\<close>

text \<open>
  The error values of the failing inputs, in input order, skipping the successes. This
  follows the contract's wording, not the code; \<open>combine\<close> above is the code.
\<close>

fun spec_failing_errors :: "('v, 'e) Result list \<Rightarrow> 'e list" where
  "spec_failing_errors [] = []"
| "spec_failing_errors (Ok v # rs) = spec_failing_errors rs"
| "spec_failing_errors (Fail e # rs) = e # spec_failing_errors rs"

section \<open>The classes as objects on a heap\<close>

text \<open>
  To speak about mutation and object identity, the instances live on a heap: a reference
  is an index, \<^verbatim>\<open>new\<close> appends, and a method is called on a reference \<open>this\<close>. A method
  takes the heap and returns its completion with the heap after the call. A caller-supplied
  function runs on the heap as well: it may construct instances of its own.
  An assignment to a field would be \<open>h[this := \<dots>]\<close>; the classes declare every field
  \<^verbatim>\<open>readonly\<close> and no method assigns one.
\<close>

type_synonym ref = nat
type_synonym 'a heap = "('a, 'a) Result list"
type_synonym ('a, 'r) effect = "'a heap \<Rightarrow> 'r completion \<times> 'a heap"

definition new_Result :: "('a, 'a) Result \<Rightarrow> ('a, ref) effect" where
  "new_Result obj h = (Inr (length h), h @ [obj])"

definition map_at :: "ref \<Rightarrow> ('a \<Rightarrow> ('a, 'a) effect) \<Rightarrow> ('a, ref) effect" where
  "map_at this mapFn h =
     (case h ! this of
        Ok v \<Rightarrow>
          (case mapFn v h of
             (Inl x, h') \<Rightarrow> (Inl x, h')
           | (Inr w, h') \<Rightarrow> new_Result (Ok w) h')
      | Fail e \<Rightarrow> new_Result (Fail e) h)"

definition flatMap_at :: "ref \<Rightarrow> ('a \<Rightarrow> ('a, ref) effect) \<Rightarrow> ('a, ref) effect" where
  "flatMap_at this mapFn h =
     (case h ! this of
        Ok v \<Rightarrow> mapFn v h
      | Fail e \<Rightarrow> new_Result (Fail e) h)"

definition mapFails_at :: "ref \<Rightarrow> ('a \<Rightarrow> ('a, 'a) effect) \<Rightarrow> ('a, ref) effect" where
  "mapFails_at this mapFn h =
     (case h ! this of
        Ok v \<Rightarrow> new_Result (Ok v) h
      | Fail e \<Rightarrow>
          (case mapFn e h of
             (Inl x, h') \<Rightarrow> (Inl x, h')
           | (Inr e', h') \<Rightarrow> new_Result (Fail e') h'))"


definition unwrap_at :: "ref \<Rightarrow> ('a, 'a) effect" where
  "unwrap_at this h =
     (case h ! this of
        Ok v \<Rightarrow> (Inr v, h)
      | Fail e \<Rightarrow> (Inl (new_Error ''Tried to unwrap a Fail result''), h))"

definition unwrapOr_at :: "ref \<Rightarrow> 'a \<Rightarrow> ('a, 'a) effect" where
  "unwrapOr_at this defaultValue h =
     (case h ! this of
        Ok v \<Rightarrow> (Inr v, h)
      | Fail e \<Rightarrow> (Inr defaultValue, h))"

definition unwrapOrElse_at :: "ref \<Rightarrow> (unit \<Rightarrow> ('a, 'a) effect) \<Rightarrow> ('a, 'a) effect" where
  "unwrapOrElse_at this fn h =
     (case h ! this of
        Ok v \<Rightarrow> (Inr v, h)
      | Fail e \<Rightarrow> fn () h)"

definition expect_at :: "ref \<Rightarrow> string \<Rightarrow> ('a, 'a) effect" where
  "expect_at this msg h =
     (case h ! this of
        Ok v \<Rightarrow> (Inr v, h)
      | Fail e \<Rightarrow> (Inl (new_Error msg), h))"

definition and_at :: "ref \<Rightarrow> ref \<Rightarrow> ('a, ref) effect" where
  "and_at this result h =
     (case h ! this of
        Ok v \<Rightarrow> (Inr result, h)
      | Fail e \<Rightarrow> new_Result (Fail e) h)"

definition or_at :: "ref \<Rightarrow> ref \<Rightarrow> ('a, ref) effect" where
  "or_at this result h =
     (case h ! this of
        Ok v \<Rightarrow> (Inr this, h)
      | Fail e \<Rightarrow> (Inr result, h))"

definition unwrapOrGetErrors_at :: "ref \<Rightarrow> ('a, 'a) effect" where
  "unwrapOrGetErrors_at this h =
     (case h ! this of
        Ok v \<Rightarrow> (Inr v, h)
      | Fail e \<Rightarrow> (Inr e, h))"




text \<open>
  The two views of the classes are tied together by reading a returned reference
  (\<open>deref\<close>), by running a function that does not touch the heap (\<open>pure_fn\<close>), and by a
  function that constructs the instance it returns (\<open>construct\<close>).
\<close>

fun deref :: "ref completion \<times> 'a heap \<Rightarrow> ('a, 'a) Result completion" where
  "deref (Inl x, h) = Inl x"
| "deref (Inr r, h) = Inr (h ! r)"

definition pure_fn :: "('b \<Rightarrow> 'r completion) \<Rightarrow> 'b \<Rightarrow> ('a, 'r) effect" where
  "pure_fn f x h = (f x, h)"

definition construct :: "('a, 'a) Result completion \<Rightarrow> ('a, ref) effect" where
  "construct c h = (case c of Inl x \<Rightarrow> (Inl x, h) | Inr obj \<Rightarrow> new_Result obj h)"

section \<open>Properties of \<^verbatim>\<open>combine\<close>\<close>

text \<open>
  C6. \<^verbatim>\<open>combine()\<close> with no argument returns a success holding the empty tuple: it neither
  throws nor returns a failure.
\<close>

theorem combine_no_inputs: "combine [] = Inr (Ok [])"
  by (simp add: combine_def)

subsection \<open>The two branches of \<open>combine\<close>\<close>

lemma instanceof_Fail_isFail: "instanceof_Fail r = isFail r"
  by (cases r) simp_all

lemma isFail_not_isOk: "isFail r = (\<not> isOk r)"
  by (cases r) simp_all

lemma array_map_unwrapOr_Ok:
  "\<forall>r \<in> set rs. isOk r \<Longrightarrow> array_map (\<lambda>r. unwrapOr r d) rs = Inr (map value_of rs)"
proof (induction rs)
  case Nil
  show ?case by simp
next
  case (Cons r rs)
  then obtain v where "r = Ok v" by (cases r) auto
  with Cons show ?case by simp
qed

lemma filter_instanceof_Fail_empty:
  "\<forall>r \<in> set rs. isOk r \<Longrightarrow> filter instanceof_Fail rs = []"
  by (induction rs) (auto elim: isOk.elims)

lemma fail_values_spec:
  "map value_of (filter instanceof_Fail rs) = spec_failing_errors rs"
  by (induction rs rule: spec_failing_errors.induct) simp_all

lemma combine_all_Ok:
  "\<forall>r \<in> set rs. isOk r \<Longrightarrow> combine rs = Inr (Ok (map value_of rs))"
  by (simp add: combine_def filter_instanceof_Fail_empty array_map_unwrapOr_Ok)

lemma combine_some_Fail:
  "\<exists>r \<in> set rs. isFail r \<Longrightarrow> combine rs = Inr (Fail (spec_failing_errors rs))"
proof -
  assume "\<exists>r \<in> set rs. isFail r"
  then have "filter instanceof_Fail rs \<noteq> []"
    by (auto simp: filter_empty_conv instanceof_Fail_isFail)
  then show ?thesis
    by (simp add: combine_def fail_values_spec)
qed

lemma set_spec_failing_errors: "set (spec_failing_errors rs) = {e. Fail e \<in> set rs}"
  by (induction rs rule: spec_failing_errors.induct) auto

lemma length_spec_failing_errors:
  "length (spec_failing_errors rs) = length (filter isFail rs)"
  by (induction rs rule: spec_failing_errors.induct) simp_all

lemma Ok_value_of_nth:
  "\<forall>r \<in> set rs. isOk r \<Longrightarrow> i < length rs \<Longrightarrow> rs ! i = Ok (map value_of rs ! i)"
proof -
  assume a: "\<forall>r \<in> set rs. isOk r" and i: "i < length rs"
  then have "isOk (rs ! i)" by simp
  then obtain v where "rs ! i = Ok v" by (cases "rs ! i") auto
  with i show ?thesis by simp
qed

text \<open>
  C2. For every list of inputs: when all are successes, \<open>combine\<close> returns the success
  of their values, as many as the inputs and each at the index of its input; when at least
  one is a failure, it returns the failure of the error values of the failing inputs in
  input order (the contract's list, \<open>spec_failing_errors\<close>), which holds the error of
  every failing input wherever it stands, and nothing else.
\<close>

theorem combine_contract:
  "((\<forall>r \<in> set rs. isOk r) \<longrightarrow>
      combine rs = Inr (Ok (map value_of rs)) \<and>
      length (map value_of rs) = length rs \<and>
      (\<forall>i < length rs. rs ! i = Ok (map value_of rs ! i))) \<and>
   ((\<exists>r \<in> set rs. isFail r) \<longrightarrow>
      combine rs = Inr (Fail (spec_failing_errors rs)) \<and>
      set (spec_failing_errors rs) = {e. Fail e \<in> set rs} \<and>
      length (spec_failing_errors rs) = length (filter isFail rs))"
  using combine_all_Ok [of rs] combine_some_Fail [of rs] Ok_value_of_nth [of rs]
    set_spec_failing_errors [of rs] length_spec_failing_errors [of rs]
  by simp

theorem combine_contract_witness:
  "combine [Ok (Number 1), Ok (Number 2), Ok (Number 3)]
     = Inr (Ok [Number 1, Number 2, Number 3]) \<and>
   combine [Fail (Str ''a''), Ok (Number 1), Fail (Str ''b'')]
     = Inr (Fail [Str ''a'', Str ''b''])"
  using combine_contract [of "[Ok (Number 1), Ok (Number 2), Ok (Number 3)]"]
    combine_contract [of "[Fail (Str ''a''), Ok (Number 1), Fail (Str ''b'')]"]
  by simp

text \<open>
  C9. Whenever \<open>combine\<close> returns a failure, its payload is a list with one error per
  failing input, so it is never empty; with exactly one failing input the payload is the
  one-element list of that input's error.
\<close>

theorem combine_failure_payload:
  "(combine rs = Inr (Fail errs) \<longrightarrow>
      length errs = length (filter isFail rs) \<and> errs \<noteq> []) \<and>
   (length (filter isFail rs) = 1 \<longrightarrow>
      (\<exists>e. combine rs = Inr (Fail [e]) \<and> Fail e \<in> set rs))"
proof (intro conjI impI)
  assume c: "combine rs = Inr (Fail errs)"
  have f: "\<exists>r \<in> set rs. isFail r"
  proof (rule ccontr)
    assume "\<not> (\<exists>r \<in> set rs. isFail r)"
    then have "\<forall>r \<in> set rs. isOk r" by (simp add: isFail_not_isOk)
    then have "combine rs = Inr (Ok (map value_of rs))" by (rule combine_all_Ok)
    with c show False by simp
  qed
  then have e: "errs = spec_failing_errors rs"
    using c by (simp add: combine_some_Fail)
  show "length errs = length (filter isFail rs)"
    by (simp add: e length_spec_failing_errors)
  from f have "filter isFail rs \<noteq> []" by (auto simp: filter_empty_conv)
  then show "errs \<noteq> []"
    using e length_spec_failing_errors [of rs] by auto
next
  assume one: "length (filter isFail rs) = 1"
  then have "filter isFail rs \<noteq> []" by auto
  then have f: "\<exists>r \<in> set rs. isFail r" by (auto simp: filter_empty_conv)
  have "length (spec_failing_errors rs) = 1"
    using one by (simp add: length_spec_failing_errors)
  then obtain e where e: "spec_failing_errors rs = [e]"
    by (cases "spec_failing_errors rs") auto
  then have "e \<in> set (spec_failing_errors rs)" by simp
  then have "Fail e \<in> set rs" by (simp add: set_spec_failing_errors)
  with f e show "\<exists>e. combine rs = Inr (Fail [e]) \<and> Fail e \<in> set rs"
    by (simp add: combine_some_Fail)
qed

theorem combine_failure_payload_witness:
  "length (filter isFail [Ok (Number 1), Fail (Str ''only''), Ok Null]) = 1 \<and>
   combine [Ok (Number 1), Fail (Str ''only''), Ok Null] = Inr (Fail [Str ''only'']) \<and>
   length [Str ''only''] = length (filter isFail [Ok (Number 1), Fail (Str ''only''), Ok Null])"
proof -
  let ?rs = "[Ok (Number 1), Fail (Str ''only''), Ok Null] :: (js_value, js_value) Result list"
  have one: "length (filter isFail ?rs) = 1"
    by simp
  with combine_failure_payload [of ?rs]
  obtain e where "combine ?rs = Inr (Fail [e])" and "Fail e \<in> set ?rs"
    by blast
  then have c: "combine ?rs = Inr (Fail [Str ''only''])"
    by simp
  with combine_failure_payload [of ?rs "[Str ''only'']"]
  have "length [Str ''only''] = length (filter isFail ?rs)"
    by blast
  with one c show ?thesis by simp
qed

lemma spec_failing_errors_append:
  "spec_failing_errors (xs @ ys) = spec_failing_errors xs @ spec_failing_errors ys"
  by (induction xs rule: spec_failing_errors.induct) simp_all

section \<open>Properties of the methods\<close>

text \<open>
  Two results are equal when they are of the same class and hold the same payload; a
  chain of calls \<^verbatim>\<open>r.m1().m2()\<close> is \<open>then_do (m1 r) m2\<close>.
\<close>

text \<open>
  C4. \<open>flip\<close> turns a success holding \<open>v\<close> into the failure holding \<open>v\<close> and a failure
  holding \<open>e\<close> into the success holding \<open>e\<close>, and flipping twice gives the result one
  started from, for both variants.
\<close>

theorem flip_involutive:
  "flip (Ok v) = Inr (Fail v) \<and> flip (Fail e) = Inr (Ok e) \<and>
   then_do (flip r) flip = Inr r"
  by (cases r) simp_all

lemma map_res_compose:
  "then_do (map_res r f) (\<lambda>r'. map_res r' g) = map_res r (\<lambda>x. then_do (f x) g)"
proof (cases r)
  case (Ok v)
  then show ?thesis by (cases "f v") simp_all
next
  case (Fail e)
  then show ?thesis by simp
qed

text \<open>
  C5. Functor laws: mapping the identity over a success gives that success, mapping the
  identity over the error of a failure gives that failure, and mapping \<open>f\<close> and then \<open>g\<close>
  is mapping their composition (stated for a success, as the claim has it, and for any
  result; it holds also when \<open>f\<close> or \<open>g\<close> throws).
\<close>

theorem functor_laws:
  "map_res (Ok v) (\<lambda>x. Inr x) = Inr (Ok v) \<and>
   mapFails (Fail e) (\<lambda>x. Inr x) = Inr (Fail e) \<and>
   then_do (map_res (Ok v) f) (\<lambda>r'. map_res r' g) = map_res (Ok v) (\<lambda>x. then_do (f x) g) \<and>
   then_do (map_res r f) (\<lambda>r'. map_res r' g) = map_res r (\<lambda>x. then_do (f x) g)"
proof (intro conjI)
  show "map_res (Ok v) (\<lambda>x. Inr x) = Inr (Ok v)" by simp
  show "mapFails (Fail e) (\<lambda>x. Inr x) = Inr (Fail e)" by simp
  show "then_do (map_res (Ok v) f) (\<lambda>r'. map_res r' g) = map_res (Ok v) (\<lambda>x. then_do (f x) g)"
    by (rule map_res_compose)
  show "then_do (map_res r f) (\<lambda>r'. map_res r' g) = map_res r (\<lambda>x. then_do (f x) g)"
    by (rule map_res_compose)
qed

text \<open>
  C7. On a success \<open>unwrapOrElse\<close> returns the held value whatever the supplied function
  is: the same for any two functions, the value even for a function that would throw, and,
  on the heap, the heap the call started with even for a function that would construct
  instances. On a failure it returns exactly what the supplied function returns.
\<close>

theorem unwrapOrElse_lazy:
  "unwrapOrElse (Ok v) fn = Inr v \<and>
   unwrapOrElse (Ok v) fn = unwrapOrElse (Ok v) fn' \<and>
   unwrapOrElse (Ok v) (\<lambda>_. Inl x) = Inr v \<and>
   unwrapOrElse_at (length h) hfn (h @ Ok a # h') = (Inr a, h @ Ok a # h') \<and>
   unwrapOrElse (Fail e) fn = fn () \<and>
   unwrapOrElse (Fail e) (\<lambda>_. Inr d) = Inr d \<and>
   unwrapOrElse_at (length h) hfn (h @ Fail a # h') = hfn () (h @ Fail a # h')"
  by (simp add: unwrapOrElse_at_def)

text \<open>
  C10. The two tags of a result are always opposite, and the class alone decides them: a
  constructed \<open>Ok\<close> has \<open>isOk\<close> true and \<open>unwrap\<close> returns its payload, for every payload
  and so for \<^verbatim>\<open>undefined\<close> and \<^verbatim>\<open>null\<close>; a constructed \<open>Fail\<close> has \<open>isFail\<close> true and
  takes the failure branch of every method and of \<open>combine\<close>, for every payload.
\<close>

theorem variant_fixed_by_constructor:
  "isOk r = (\<not> isFail r) \<and>
   isOk (Ok v) \<and> \<not> isFail (Ok v) \<and> unwrap (Ok v) = Inr v \<and>
   isOk (Ok Undefined) \<and> unwrap (Ok Undefined) = Inr Undefined \<and>
   isOk (Ok Null) \<and> unwrap (Ok Null) = Inr Null \<and>
   combine [Ok Undefined, Ok Null] = Inr (Ok [Undefined, Null]) \<and>
   isFail (Fail e) \<and> \<not> isOk (Fail e) \<and>
   isFail (Fail Undefined) \<and> isFail (Fail Null) \<and>
   map_res (Fail e) f = Inr (Fail e) \<and>
   flatMap (Fail e) g = Inr (Fail e) \<and>
   mapFails (Fail e) k = then_do (k e) (\<lambda>e'. Inr (Fail e')) \<and>
   flip (Fail e) = Inr (Ok e) \<and>
   unwrap (Fail e) = Inl (new_Error ''Tried to unwrap a Fail result'') \<and>
   unwrapOr (Fail e) d = Inr d \<and>
   unwrapOrElse (Fail e) fn = fn () \<and>
   expect (Fail e) msg = Inl (new_Error msg) \<and>
   and_res (Fail e) other = Inr (Fail e) \<and>
   or_res (Fail e) alt = Inr alt \<and>
   unwrapOrGetErrors (Fail u) = Inr u \<and>
   combine (xs @ Fail p # ys) = Inr (Fail (spec_failing_errors xs @ p # spec_failing_errors ys)) \<and>
   combine [Fail Undefined, Ok (Number 1), Fail Null] = Inr (Fail [Undefined, Null])"
proof -
  have "isOk r = (\<not> isFail r)"
    by (cases r) simp_all
  moreover have "combine [Ok Undefined, Ok Null] = Inr (Ok [Undefined, Null])"
    using combine_all_Ok [of "[Ok Undefined, Ok Null]"] by simp
  moreover have c: "combine (xs @ Fail p # ys)
      = Inr (Fail (spec_failing_errors xs @ p # spec_failing_errors ys))" for xs p ys
    using combine_some_Fail [of "xs @ Fail p # ys"]
    by (simp add: spec_failing_errors_append)
  moreover have "combine [Fail Undefined, Ok (Number 1), Fail Null] = Inr (Fail [Undefined, Null])"
    using c [of "[]" Undefined "[Ok (Number 1), Fail Null]"] by simp
  ultimately show ?thesis by simp
qed

section \<open>Which calls throw, and what\<close>

text \<open>
  C1, as the code has it. \<open>unwrap\<close> on a failure never returns: it throws an instance of
  the built-in class \<^verbatim>\<open>Error\<close> with the fixed message "Tried to unwrap a Fail result". The
  signal is a throw, not a returned failure, but its class is the generic one, the class
  \<open>expect\<close> throws as well; there is no class of its own for it.
\<close>

theorem unwrap_throws_generic_Error:
  "unwrap (Fail e) = Inl (new_Error ''Tried to unwrap a Fail result'') \<and>
   \<not> returns (unwrap (Fail e)) \<and>
   class_name (new_Error ''Tried to unwrap a Fail result'') = ''Error'' \<and>
   message (new_Error ''Tried to unwrap a Fail result'') = ''Tried to unwrap a Fail result'' \<and>
   unwrap (Fail e) = expect (Fail e) ''Tried to unwrap a Fail result''"
  by (simp add: new_Error_def)

text \<open>
  C1, as the claim has it, fails: on \<^verbatim>\<open>new Fail("e")\<close> the thrown value is an \<^verbatim>\<open>Error\<close>, not
  an instance of a class \<^verbatim>\<open>UnwrapOnFailure\<close>, and it has the class and the message of
  the value thrown by \<open>expect\<close> with that message and by a caller's own function that
  throws \<^verbatim>\<open>new Error("Tried to unwrap a Fail result")\<close>.
\<close>

theorem unwrap_signal_not_distinct:
  "unwrap (Fail (Str ''e'') :: (js_value, js_value) Result)
     = Inl (Exception ''Error'' ''Tried to unwrap a Fail result'') \<and>
   class_name (Exception ''Error'' ''Tried to unwrap a Fail result'') \<noteq> ''UnwrapOnFailure'' \<and>
   unwrap (Fail (Str ''e'') :: (js_value, js_value) Result)
     = expect (Fail (Str ''e'') :: (js_value, js_value) Result) ''Tried to unwrap a Fail result'' \<and>
   unwrap (Fail (Str ''e'') :: (js_value, js_value) Result)
     = unwrapOrElse (Fail (Str ''e'') :: (js_value, js_value) Result)
         (\<lambda>_. Inl (new_Error ''Tried to unwrap a Fail result''))"
  by (simp add: new_Error_def)

lemma then_do_returns: "returns c \<Longrightarrow> (\<And>a. returns (k a)) \<Longrightarrow> returns (then_do c k)"
  by (cases c) simp_all

lemma array_map_returns: "(\<And>x. returns (f x)) \<Longrightarrow> returns (array_map f xs)"
  by (induction xs) (simp_all add: then_do_returns)

lemma unwrapOr_returns: "returns (unwrapOr r d)"
  by (cases r) simp_all

lemma combine_returns: "returns (combine rs)"
  by (simp add: combine_def Let_def then_do_returns array_map_returns unwrapOr_returns)

text \<open>
  C3. Provided the caller-supplied functions return, every method but \<open>unwrap\<close> and
  \<open>expect\<close> returns on every result, and \<open>combine\<close> returns on every list of results;
  \<open>unwrap\<close> and \<open>expect\<close> return on a success and throw on a failure.
\<close>

theorem only_unwrap_and_expect_throw:
  assumes "\<And>v. returns (f v)" and "\<And>v. returns (g v)" and "\<And>e. returns (k e)"
    and "returns (fn ())"
  shows "returns (map_res r f) \<and> returns (flatMap r g) \<and> returns (mapFails r k) \<and>
    returns (flip r) \<and> returns (unwrapOr r d) \<and> returns (unwrapOrElse r fn) \<and>
    returns (and_res r other) \<and> returns (or_res r alt) \<and>
    returns (unwrapOrGetErrors u) \<and> returns (combine rs) \<and>
    returns (unwrap (Ok v)) \<and> returns (expect (Ok v) msg) \<and>
    \<not> returns (unwrap (Fail e)) \<and> \<not> returns (expect (Fail e) msg)"
proof -
  have "returns (map_res r f)"
    using assms(1) by (cases r) (simp_all add: then_do_returns)
  moreover have "returns (flatMap r g)"
    using assms(2) by (cases r) simp_all
  moreover have "returns (mapFails r k)"
    using assms(3) by (cases r) (simp_all add: then_do_returns)
  moreover have "returns (flip r)"
    by (cases r) simp_all
  moreover have "returns (unwrapOr r d)"
    by (rule unwrapOr_returns)
  moreover have "returns (unwrapOrElse r fn)"
    using assms(4) by (cases r) simp_all
  moreover have "returns (and_res r other)"
    by (cases r) simp_all
  moreover have "returns (or_res r alt)"
    by (cases r) simp_all
  moreover have "returns (unwrapOrGetErrors u)"
    by (cases u) simp_all
  moreover have "returns (combine rs)"
    by (rule combine_returns)
  ultimately show ?thesis by simp
qed

theorem only_unwrap_and_expect_throw_witness:
  "returns (map_res (Ok (Number 1) :: (js_value, js_value) Result) (\<lambda>v. Inr (Array [v]))) \<and>
   returns (flatMap (Ok (Number 1) :: (js_value, js_value) Result) (\<lambda>v. Inr (Fail v))) \<and>
   returns (mapFails (Ok (Number 1) :: (js_value, js_value) Result) (\<lambda>e. Inr (Array [e]))) \<and>
   returns (unwrapOrElse (Ok (Number 1) :: (js_value, js_value) Result) (\<lambda>_. Inr (Number 9))) \<and>
   returns (combine [Fail (Str ''a''), Ok (Number 1)]) \<and>
   \<not> returns (unwrap (Fail (Str ''e'') :: (js_value, js_value) Result)) \<and>
   \<not> returns (expect (Fail (Str ''e'') :: (js_value, js_value) Result) ''boom'')"
  using only_unwrap_and_expect_throw
    [of "\<lambda>v. Inr (Array [v])" "\<lambda>v. Inr (Fail v :: (js_value, js_value) Result)"
        "\<lambda>e. Inr (Array [e])" "\<lambda>_. Inr (Number 9)"
        "Ok (Number 1) :: (js_value, js_value) Result" "Number 0" "Ok Null" "Ok Null" "Ok Null"
        "[Fail (Str ''a''), Ok (Number 1)]" "Number 1" "''boom''" "Str ''e''"]
  by simp

section \<open>Immutability\<close>

subsection \<open>The heap view agrees with the methods\<close>

lemma deref_new_Result: "deref (new_Result obj h) = Inr obj"
  by (simp add: new_Result_def)

lemma heap_map_agrees: "deref (map_at this (pure_fn f) h) = map_res (h ! this) f"
  by (cases "h ! this")
    (auto simp: map_at_def pure_fn_def deref_new_Result split: sum.splits)

lemma heap_mapFails_agrees: "deref (mapFails_at this (pure_fn f) h) = mapFails (h ! this) f"
  by (cases "h ! this")
    (auto simp: mapFails_at_def pure_fn_def deref_new_Result split: sum.splits)

lemma heap_flatMap_agrees:
  "deref (flatMap_at this (\<lambda>v. construct (g v)) h) = flatMap (h ! this) g"
  by (cases "h ! this")
    (auto simp: flatMap_at_def construct_def deref_new_Result split: sum.splits)


lemma heap_and_agrees: "deref (and_at this other h) = and_res (h ! this) (h ! other)"
  by (cases "h ! this") (simp_all add: and_at_def deref_new_Result)

lemma heap_or_agrees: "deref (or_at this other h) = or_res (h ! this) (h ! other)"
  by (cases "h ! this") (simp_all add: or_at_def)

lemma heap_getters_agree:
  "fst (unwrap_at this h) = unwrap (h ! this)"
  "fst (unwrapOr_at this d h) = unwrapOr (h ! this) d"
  "fst (unwrapOrElse_at this (pure_fn fn) h) = unwrapOrElse (h ! this) fn"
  "fst (expect_at this msg h) = expect (h ! this) msg"
  "fst (unwrapOrGetErrors_at this h) = unwrapOrGetErrors (h ! this)"
  by (cases "h ! this";
      simp add: unwrap_at_def unwrapOr_at_def unwrapOrElse_at_def expect_at_def
        unwrapOrGetErrors_at_def pure_fn_def)+

subsection \<open>No method changes an instance\<close>




























end
